theory Spec2Isabelle
  imports Complex_Main
begin

section \<open>The caller's tree and the labeler\<close>

text \<open>
  \<^verbatim>\<open>TreeDrawing\<close> accepts any node type with public fields \<^verbatim>\<open>left\<close> and
  \<^verbatim>\<open>right\<close> that uses \<^verbatim>\<open>nullptr\<close> for a missing node. A value of
  \<^verbatim>\<open>NodeType*\<close> is therefore either \<^verbatim>\<open>nullptr\<close> or points to a node with two
  child pointers and whatever else the caller keeps in it (\<open>contents\<close>). The input is
  finite and acyclic, which a datatype is by construction.
\<close>

datatype 'a NodeType =
    nullptr
  | NodeType (left: "'a NodeType") (right: "'a NodeType") (contents: 'a)

text \<open>
  \<^verbatim>\<open>Labeler<NodeType>\<close> is \<^verbatim>\<open>std::function<std::string(NodeType*)>\<close>: a callable that
  may have effects. An invocation is a step on a world \<open>'w\<close> of everything the callable can
  touch, so that whether, when and how often it is invoked can be observed.
\<close>

type_synonym ('a, 'w) Labeler = "'a NodeType \<Rightarrow> 'w \<Rightarrow> string \<times> 'w"

text \<open>\<^verbatim>\<open>defaultLabeler\<close> ignores its argument and returns the empty string.\<close>

definition defaultLabeler :: "('a, 'w) Labeler" where
  "defaultLabeler n w = ('''', w)"

section \<open>The snapshot tree\<close>

text \<open>
  \<^verbatim>\<open>GPoint\<close> comes from the graphics library (\<^verbatim>\<open>gtypes.h\<close>): a pair of doubles, read here
  as reals. The empty initialiser \<^verbatim>\<open>{}\<close> value-initialises it, which for the library's
  point is the origin.
\<close>

record GPoint =
  getX :: real
  getY :: real

definition GPoint_default :: GPoint where
  "GPoint_default = \<lparr>getX = 0, getY = 0\<rparr>"

text \<open>
  \<^verbatim>\<open>struct Node\<close>: two owned children, the deferred label
  \<^verbatim>\<open>std::function<std::string()>\<close> (a step on the world, like the labeler) and the
  position. \<open>nullNode\<close> is the null \<^verbatim>\<open>shared_ptr<Node>\<close>.
\<close>

datatype 'w Node =
    nullNode
  | Node (Node_left: "'w Node") (Node_right: "'w Node")
         (label: "'w \<Rightarrow> string \<times> 'w") (position: GPoint)

text \<open>
  \<^verbatim>\<open>convert(root, labeler)\<close>. The braced initialiser evaluates its elements in order:
  the left child's conversion, the right child's, the closure
  \<^verbatim>\<open>[=] () { return labeler(root); }\<close>, and the point \<^verbatim>\<open>{}\<close>. The world is threaded
  through the two recursive calls in that order.
\<close>

fun convert :: "'a NodeType \<Rightarrow> ('a, 'w) Labeler \<Rightarrow> 'w \<Rightarrow> 'w Node \<times> 'w" where
  "convert nullptr labeler w = (nullNode, w)"
| "convert (NodeType l r a) labeler w =
     (let (cl, w1) = convert l labeler w;
          (cr, w2) = convert r labeler w1
      in (Node cl cr (\<lambda>s. labeler (NodeType l r a) s) GPoint_default, w2))"

section \<open>Naming the nodes of a tree\<close>

text \<open>
  A node of a tree is named by the way to it from the root: the list of child links to
  follow. Two nodes of one tree are the same node exactly when their ways are equal.
\<close>

datatype link = ToLeft | ToRight

fun descend :: "link list \<Rightarrow> 'a NodeType \<Rightarrow> 'a NodeType" where
  "descend [] t = t"
| "descend (k # ks) nullptr = nullptr"
| "descend (ToLeft # ks) (NodeType l r a) = descend ks l"
| "descend (ToRight # ks) (NodeType l r a) = descend ks r"

fun Node_descend :: "link list \<Rightarrow> 'w Node \<Rightarrow> 'w Node" where
  "Node_descend [] t = t"
| "Node_descend (k # ks) nullNode = nullNode"
| "Node_descend (ToLeft # ks) (Node l r f g) = Node_descend ks l"
| "Node_descend (ToRight # ks) (Node l r f g) = Node_descend ks r"

fun count_nodes :: "'a NodeType \<Rightarrow> nat" where
  "count_nodes nullptr = 0"
| "count_nodes (NodeType l r a) = Suc (count_nodes l + count_nodes r)"

fun Node_count :: "'w Node \<Rightarrow> nat" where
  "Node_count nullNode = 0"
| "Node_count (Node l r f g) = Suc (Node_count l + Node_count r)"

text \<open>
  A labeler that records its invocations: the world is the list of the nodes it has been
  invoked on so far, oldest first.
\<close>

definition recording :: "('a NodeType \<Rightarrow> string) \<Rightarrow> ('a, 'a NodeType list) Labeler" where
  "recording f n calls = (f n, calls @ [n])"

section \<open>The layout's intermediate tree\<close>

text \<open>
  \<^verbatim>\<open>struct ThreadedNode\<close>: two owned children, the two hull pointers and the two signed
  hull distances. \<open>nullThreaded\<close> is the null \<^verbatim>\<open>unique_ptr<ThreadedNode>\<close>. A hull pointer
  does not own its target; it is kept as the way, from the root of the tree under layout, to
  the node it points to (\<open>None\<close> for \<^verbatim>\<open>nullptr\<close>).
\<close>

datatype ThreadedNode =
    nullThreaded
  | ThreadedNode (leftChild: ThreadedNode) (rightChild: ThreadedNode)
                 (leftHull: "link list option") (rightHull: "link list option")
                 (leftHullDistance: real) (rightHullDistance: real)

text \<open>
  A \<^verbatim>\<open>ThreadedNode\<close> as its default member initialisers leave it. \<^verbatim>\<open>kMinSeparation\<close> is
  declared in the header and defined elsewhere, so it is a parameter.
\<close>

definition ThreadedNode_default :: "real \<Rightarrow> ThreadedNode" where
  "ThreadedNode_default kMinSeparation =
     ThreadedNode nullThreaded nullThreaded None None
       (- kMinSeparation / 2) (kMinSeparation / 2)"

text \<open>
  The placement pass walks a snapshot and "the corresponding ThreadedNode tree": the one
  that has a node exactly where the snapshot has one.
\<close>

fun corresponds :: "'w Node \<Rightarrow> ThreadedNode \<Rightarrow> bool" where
  "corresponds nullNode nullThreaded = True"
| "corresponds (Node l r f g) (ThreadedNode lc rc lh rh ld rd) =
     (corresponds l lc \<and> corresponds r rc)"
| "corresponds nullNode (ThreadedNode lc rc lh rh ld rd) = False"
| "corresponds (Node l r f g) nullThreaded = False"

text \<open>
  Modelled from the spec: \<^verbatim>\<open>placeNodesIn\<close>, which the header only declares
  (\<^verbatim>\<open>static void placeNodesIn(Node* inputRoot, ThreadedNode* root, double x = 0, double y = 0)\<close>);
  its body is not among the sources. The spec (4.3): a synchronized recursive walk over the
  snapshot and the corresponding ThreadedNode tree that maintains a running absolute x (the
  sum of the relative offsets from the root down to the current node) and the absolute
  y = depth times vertical spacing, and writes the resulting point into the snapshot node's
  position field.

  The declaration takes the running x and y as arguments, both 0 by default, so a call
  hands each child its own x and the y one vertical spacing further down. The walk goes on
  where both trees have a node. The relative offset of a child is the hull
  distance its parent holds on that side, the only horizontal distances a
  \<^verbatim>\<open>ThreadedNode\<close> records. \<^verbatim>\<open>kVerticalSpacing\<close> is declared in the header and defined
  elsewhere, so it is a parameter. Doubles are read as reals.

  The function mutates the snapshot in place. The result is the snapshot with the positions
  written, together with the assignments made, in the order made: each names the node
  written to, by its way from \<^verbatim>\<open>inputRoot\<close>, and the point written.
\<close>

fun placeNodesIn ::
  "real \<Rightarrow> 'w Node \<Rightarrow> ThreadedNode \<Rightarrow> real \<Rightarrow> real \<Rightarrow> 'w Node \<times> (link list \<times> GPoint) list"
where
  "placeNodesIn kVerticalSpacing (Node l r f g) (ThreadedNode lc rc lh rh ld rd) x y =
     (let (pl, al) = placeNodesIn kVerticalSpacing l lc (x + ld) (y + kVerticalSpacing);
          (pr, ar) = placeNodesIn kVerticalSpacing r rc (x + rd) (y + kVerticalSpacing)
      in (Node pl pr f \<lparr>getX = x, getY = y\<rparr>,
          ([], \<lparr>getX = x, getY = y\<rparr>)
            # map (\<lambda>(p, q). (ToLeft # p, q)) al @ map (\<lambda>(p, q). (ToRight # p, q)) ar))"
| "placeNodesIn kVerticalSpacing nullNode t x y = (nullNode, [])"
| "placeNodesIn kVerticalSpacing (Node l r f g) nullThreaded x y = (Node l r f g, [])"

section \<open>Properties of \<open>convert\<close>\<close>

lemma convert_world: "snd (convert rt labeler w) = w"
proof (induction rt arbitrary: w)
  case nullptr
  show ?case by simp
next
  case (NodeType l r a)
  obtain cl w1 where cl: "convert l labeler w = (cl, w1)"
    by (cases "convert l labeler w")
  obtain cr w2 where cr: "convert r labeler w1 = (cr, w2)"
    by (cases "convert r labeler w1")
  from NodeType.IH(1) [of w] cl have "w1 = w" by simp
  moreover from NodeType.IH(2) [of w1] cr have "w2 = w1" by simp
  ultimately show ?case using cl cr by simp
qed

lemma convert_fst_world: "fst (convert rt labeler w) = fst (convert rt labeler w')"
proof (induction rt arbitrary: w w')
  case nullptr
  show ?case by simp
next
  case (NodeType l r a)
  have "fst (convert r labeler (snd (convert l labeler w))) =
        fst (convert r labeler (snd (convert l labeler w')))"
    by (rule NodeType.IH(2))
  with NodeType.IH(1) [of w w'] show ?case
    by (simp add: case_prod_unfold Let_def)
qed

lemma convert_NodeType:
  "convert (NodeType l r a) labeler w =
     (Node (fst (convert l labeler w)) (fst (convert r labeler w))
           (labeler (NodeType l r a)) GPoint_default, w)"
proof -
  have "snd (convert r labeler (snd (convert l labeler w))) = w"
    by (simp add: convert_world)
  moreover have "fst (convert r labeler (snd (convert l labeler w))) = fst (convert r labeler w)"
    by (rule convert_fst_world)
  ultimately show ?thesis
    by (simp add: case_prod_unfold Let_def)
qed

declare convert.simps(2) [simp del]
declare convert_NodeType [simp]

lemma Node_descend_convert:
  "Node_descend p (fst (convert rt labeler w)) = fst (convert (descend p rt) labeler w)"
  by (induction p rt rule: descend.induct) simp_all

lemma convert_null_iff: "fst (convert rt labeler w) = nullNode \<longleftrightarrow> rt = nullptr"
  by (cases rt) simp_all

lemma Node_count_convert: "Node_count (fst (convert rt labeler w)) = count_nodes rt"
  by (induction rt) simp_all

text \<open>
  C6. \<^verbatim>\<open>convert\<close> returns null for a null root. For a non-null root it returns a snapshot
  node that wraps the conversions of the left and of the right child, whose label producer,
  when invoked (in any world \<open>s\<close>), does what the labeler does on the original node, and
  whose position is the default one.
\<close>

theorem convert_builds_snapshot:
  "fst (convert nullptr labeler w) = nullNode \<and>
   fst (convert (NodeType l r a) labeler w) =
     Node (fst (convert l labeler w)) (fst (convert r labeler w))
          (labeler (NodeType l r a)) GPoint_default \<and>
   label (fst (convert (NodeType l r a) labeler w)) s = labeler (NodeType l r a) s \<and>
   position (fst (convert (NodeType l r a) labeler w)) = GPoint_default"
  by simp

theorem convert_builds_snapshot_witness:
  "fst (convert (NodeType nullptr (NodeType nullptr nullptr ''b'') ''a'') (recording contents) []) =
     Node nullNode
          (Node nullNode nullNode (recording contents (NodeType nullptr nullptr ''b'')) GPoint_default)
          (recording contents (NodeType nullptr (NodeType nullptr nullptr ''b'') ''a''))
          GPoint_default \<and>
   label (fst (convert (NodeType nullptr (NodeType nullptr nullptr ''b'') ''a'')
                (recording contents) [])) [] =
     (''a'', [NodeType nullptr (NodeType nullptr nullptr ''b'') ''a''])"
  using convert_builds_snapshot [of "recording contents" "[]" nullptr
      "NodeType nullptr nullptr ''b''" "''a''" "[]"]
    convert_builds_snapshot [of "recording contents" "[]" nullptr nullptr "''b''" "[]"]
  by (simp add: recording_def)

text \<open>
  C10. The snapshot has the shape of the input. Nodes correspond by the way that leads to
  them from the root: the snapshot node at a way is the conversion of the input node at the
  same way; a snapshot node exists at a way exactly when an input node does, so the
  correspondence pairs the nodes of the two trees one to one; a snapshot node's left
  (right) child is null exactly when the input node's left (right) child is; and the two
  trees have the same number of nodes.
\<close>

theorem convert_isomorphic:
  "Node_descend p (fst (convert rt labeler w)) = fst (convert (descend p rt) labeler w) \<and>
   (Node_descend p (fst (convert rt labeler w)) = nullNode \<longleftrightarrow> descend p rt = nullptr) \<and>
   (descend p rt \<noteq> nullptr \<longrightarrow>
      (Node_left (Node_descend p (fst (convert rt labeler w))) = nullNode
         \<longleftrightarrow> left (descend p rt) = nullptr) \<and>
      (Node_right (Node_descend p (fst (convert rt labeler w))) = nullNode
         \<longleftrightarrow> right (descend p rt) = nullptr)) \<and>
   Node_count (fst (convert rt labeler w)) = count_nodes rt"
proof -
  have at: "Node_descend p (fst (convert rt labeler w)) = fst (convert (descend p rt) labeler w)"
    by (rule Node_descend_convert)
  have children: "(Node_left (fst (convert n labeler w)) = nullNode \<longleftrightarrow> left n = nullptr) \<and>
      (Node_right (fst (convert n labeler w)) = nullNode \<longleftrightarrow> right n = nullptr)"
    if "n \<noteq> nullptr" for n
    using that by (cases n) (simp_all add: convert_null_iff)
  show ?thesis
    using children [of "descend p rt"]
    by (simp add: at convert_null_iff Node_count_convert)
qed

theorem convert_isomorphic_witness:
  "descend [ToRight] (NodeType nullptr (NodeType nullptr nullptr ''b'') ''a'') \<noteq> nullptr \<and>
   Node_descend [ToRight]
      (fst (convert (NodeType nullptr (NodeType nullptr nullptr ''b'') ''a'') defaultLabeler ())) =
     Node nullNode nullNode (defaultLabeler (NodeType nullptr nullptr ''b'')) GPoint_default \<and>
   Node_descend [ToLeft]
      (fst (convert (NodeType nullptr (NodeType nullptr nullptr ''b'') ''a'') defaultLabeler ())) =
     nullNode \<and>
   Node_count (fst (convert (NodeType nullptr (NodeType nullptr nullptr ''b'') ''a'')
      defaultLabeler ())) = 2"
  using convert_isomorphic [of "[ToRight]" "NodeType nullptr (NodeType nullptr nullptr ''b'') ''a''"
      defaultLabeler "()"]
    convert_isomorphic [of "[ToLeft]" "NodeType nullptr (NodeType nullptr nullptr ''b'') ''a''"
      defaultLabeler "()"]
  by simp

text \<open>
  C5, as stated, fails: converting a one-node tree with a labeler that records its
  invocations leaves the record empty, so the labeler was not invoked once per node at
  snapshot-build time.
\<close>

theorem convert_invokes_labeler_counterexample:
  "count_nodes (NodeType nullptr nullptr ''a'') = 1 \<and>
   snd (convert (NodeType nullptr nullptr ''a'') (recording contents) []) = [] \<and>
   length (snd (convert (NodeType nullptr nullptr ''a'') (recording contents) []))
     \<noteq> count_nodes (NodeType nullptr nullptr ''a'')"
  by simp

text \<open>
  C5, amended. \<^verbatim>\<open>convert\<close> does not invoke the labeler: it returns with the world
  unchanged, whatever the labeler is. The labeler is deferred: the label producer of the
  snapshot node at a way \<open>p\<close> is the labeler applied to the input node at \<open>p\<close>, so each
  invocation of the producer, in whatever world \<open>s\<close> it comes, is one invocation of the
  labeler on that original node.
\<close>

theorem convert_defers_labeler:
  "snd (convert rt labeler w) = w \<and>
   (descend p rt \<noteq> nullptr \<longrightarrow>
      label (Node_descend p (fst (convert rt labeler w))) s = labeler (descend p rt) s)"
proof -
  have "label (fst (convert n labeler w)) s = labeler n s" if "n \<noteq> nullptr" for n
    using that by (cases n) simp_all
  then show ?thesis
    by (simp add: convert_world Node_descend_convert)
qed

theorem convert_defers_labeler_witness:
  "descend [ToRight] (NodeType nullptr (NodeType nullptr nullptr ''b'') ''a'') \<noteq> nullptr \<and>
   snd (convert (NodeType nullptr (NodeType nullptr nullptr ''b'') ''a'') (recording contents) []) = [] \<and>
   label (Node_descend [ToRight]
      (fst (convert (NodeType nullptr (NodeType nullptr nullptr ''b'') ''a'') (recording contents) [])))
      [] = (''b'', [NodeType nullptr nullptr ''b''])"
  using convert_defers_labeler [of "NodeType nullptr (NodeType nullptr nullptr ''b'') ''a''"
      "recording contents" "[]" "[ToRight]" "[]"]
  by (simp add: recording_def)

section \<open>Properties of the placement pass\<close>

lemma placeNodesIn_Node:
  "placeNodesIn v (Node l r f g) (ThreadedNode lc rc lh rh ld rd) x y =
     (Node (fst (placeNodesIn v l lc (x + ld) (y + v)))
           (fst (placeNodesIn v r rc (x + rd) (y + v))) f \<lparr>getX = x, getY = y\<rparr>,
      ([], \<lparr>getX = x, getY = y\<rparr>)
        # map (\<lambda>(p, q). (ToLeft # p, q)) (snd (placeNodesIn v l lc (x + ld) (y + v)))
        @ map (\<lambda>(p, q). (ToRight # p, q)) (snd (placeNodesIn v r rc (x + rd) (y + v))))"
  by (simp add: case_prod_unfold Let_def)

declare placeNodesIn.simps(1) [simp del]
declare placeNodesIn_Node [simp]

lemma Node_descend_append: "Node_descend (p @ q) t = Node_descend q (Node_descend p t)"
  by (induction p t rule: Node_descend.induct) (simp_all, (cases q; simp)+)

lemma placed_null_iff:
  "Node_descend p (fst (placeNodesIn v t th x y)) = nullNode \<longleftrightarrow> Node_descend p t = nullNode"
proof (induction p t arbitrary: th x y rule: Node_descend.induct)
  case (1 t)
  show ?case by (cases t; cases th) simp_all
next
  case (2 k ks)
  show ?case by simp
next
  case (3 ks l r f g)
  then show ?case by (cases th) simp_all
next
  case (4 ks l r f g)
  then show ?case by (cases th) simp_all
qed

lemma placed_y:
  "corresponds t th \<Longrightarrow> Node_descend p t \<noteq> nullNode \<Longrightarrow>
   getY (position (Node_descend p (fst (placeNodesIn v t th x y)))) = y + real (length p) * v"
proof (induction p t arbitrary: th x y rule: Node_descend.induct)
  case (1 t)
  then show ?case by (cases t; cases th) simp_all
next
  case (2 k ks)
  then show ?case by simp
next
  case (3 ks l r f g)
  then show ?case by (cases th) (simp_all add: algebra_simps)
next
  case (4 ks l r f g)
  then show ?case by (cases th) (simp_all add: algebra_simps)
qed

text \<open>
  C4. After the placement pass, started at the default \<open>y = 0\<close> on a snapshot and its
  corresponding ThreadedNode tree, every node's y is its depth (the length of the way to
  it) times the vertical spacing, and every node other than the root lies exactly one
  vertical spacing below its parent.
\<close>

theorem placeNodesIn_y_by_depth:
  assumes "corresponds t th"
  shows "(Node_descend p t \<noteq> nullNode \<longrightarrow>
      getY (position (Node_descend p (fst (placeNodesIn v t th 0 0)))) = real (length p) * v) \<and>
    (Node_descend (p @ [k]) t \<noteq> nullNode \<longrightarrow>
      getY (position (Node_descend (p @ [k]) (fst (placeNodesIn v t th 0 0)))) =
      getY (position (Node_descend p (fst (placeNodesIn v t th 0 0)))) + v)"
proof (intro conjI impI)
  assume "Node_descend p t \<noteq> nullNode"
  then show "getY (position (Node_descend p (fst (placeNodesIn v t th 0 0)))) = real (length p) * v"
    using placed_y [OF assms, of p v 0 0] by simp
next
  assume child: "Node_descend (p @ [k]) t \<noteq> nullNode"
  have "Node_descend p t \<noteq> nullNode"
  proof
    assume "Node_descend p t = nullNode"
    then have "Node_descend (p @ [k]) t = nullNode"
      by (simp add: Node_descend_append)
    with child show False by simp
  qed
  then have "getY (position (Node_descend p (fst (placeNodesIn v t th 0 0)))) = real (length p) * v"
    using placed_y [OF assms, of p v 0 0] by simp
  moreover have "getY (position (Node_descend (p @ [k]) (fst (placeNodesIn v t th 0 0)))) =
      real (length (p @ [k])) * v"
    using placed_y [OF assms child, of v 0 0] by simp
  ultimately show "getY (position (Node_descend (p @ [k]) (fst (placeNodesIn v t th 0 0)))) =
      getY (position (Node_descend p (fst (placeNodesIn v t th 0 0)))) + v"
    by (simp add: algebra_simps)
qed

theorem placeNodesIn_y_by_depth_witness:
  "corresponds (fst (convert (NodeType nullptr (NodeType nullptr nullptr ''b'') ''a'') defaultLabeler ()))
     (ThreadedNode nullThreaded (ThreadedNode_default 2) (Some [ToRight]) (Some [ToRight]) 0 0) \<and>
   Node_descend ([] @ [ToRight])
     (fst (convert (NodeType nullptr (NodeType nullptr nullptr ''b'') ''a'') defaultLabeler ()))
     \<noteq> nullNode \<and>
   getY (position (Node_descend ([] @ [ToRight]) (fst (placeNodesIn 3
     (fst (convert (NodeType nullptr (NodeType nullptr nullptr ''b'') ''a'') defaultLabeler ()))
     (ThreadedNode nullThreaded (ThreadedNode_default 2) (Some [ToRight]) (Some [ToRight]) 0 0) 0 0))))
     = 3 \<and>
   getY (position (Node_descend [] (fst (placeNodesIn 3
     (fst (convert (NodeType nullptr (NodeType nullptr nullptr ''b'') ''a'') defaultLabeler ()))
     (ThreadedNode nullThreaded (ThreadedNode_default 2) (Some [ToRight]) (Some [ToRight]) 0 0) 0 0))))
     = 0"
  using placeNodesIn_y_by_depth [of
      "fst (convert (NodeType nullptr (NodeType nullptr nullptr ''b'') ''a'') defaultLabeler ())"
      "ThreadedNode nullThreaded (ThreadedNode_default 2) (Some [ToRight]) (Some [ToRight]) 0 0"
      "[]" 3 ToRight]
  by (simp add: ThreadedNode_default_def)

end
